theory Spec2Isabelle
  imports Main "HOL-Library.Sublist"
begin

section \<open>Python values and strings\<close>

text \<open>
  Python strings are modelled as \<open>string\<close>: a character is a code point below 256.
  The values of a parameters mapping are typed \<open>Any\<close> in the source and enter the code
  only through \<open>str(value)\<close>; the values modelled are strings, integers, booleans and
  \<open>None\<close>.
\<close>

datatype py_value = PyStr string | PyInt int | PyBool bool | PyNone

definition digit_char :: "nat \<Rightarrow> char" where
  "digit_char d = char_of (48 + d)"

fun str_nat :: "nat \<Rightarrow> string" where
  "str_nat n = (if n < 10 then [digit_char n] else str_nat (n div 10) @ [digit_char (n mod 10)])"

declare str_nat.simps [simp del]

definition str_int :: "int \<Rightarrow> string" where
  "str_int i = (if i < 0 then CHR ''-'' # str_nat (nat (- i)) else str_nat (nat i))"

fun py_str :: "py_value \<Rightarrow> string" where
  "py_str (PyStr s) = s"
| "py_str (PyInt i) = str_int i"
| "py_str (PyBool b) = (if b then ''True'' else ''False'')"
| "py_str PyNone = ''None''"

text \<open>
  \<open>str.replace(old, new)\<close>: the occurrences of \<open>old\<close> are found from left to right and
  do not overlap; the text put in is not scanned again. With an empty \<open>old\<close> Python puts
  \<open>new\<close> before every character and at the end.
\<close>

function replace_str :: "string \<Rightarrow> string \<Rightarrow> string \<Rightarrow> string" where
  "replace_str old new [] = (if old = [] then new else [])"
| "replace_str old new (c # cs) =
     (if old = [] then new @ c # replace_str old new cs
      else if prefix old (c # cs) then new @ replace_str old new (drop (length old) (c # cs))
      else c # replace_str old new cs)"
  by pat_completeness auto
termination
  by (relation "measure (\<lambda>(old, new, s). length s)") auto

section \<open>base.py: Resource\<close>

text \<open>
  A \<open>Dict[str, Any]\<close> is an association list in the dictionary's iteration order; its
  keys are pairwise distinct.
\<close>

type_synonym py_dict = "(string \<times> py_value) list"

text \<open>The f-string \<open>f"{{{key}}}"\<close>: the key between one pair of braces.\<close>

definition placeholder :: "string \<Rightarrow> string" where
  "placeholder key = CHR ''{'' # key @ ''}''"

text \<open>
  \<open>Resource.substitute_parameters\<close>: \<open>result\<close> starts as the URI and is replaced, pair after
  pair, by \<open>result.replace(placeholder, str(value))\<close>.
\<close>

definition substitute_parameters :: "string \<Rightarrow> py_dict \<Rightarrow> string" where
  "substitute_parameters uri parameters =
     fold (\<lambda>(key, value) result. replace_str (placeholder key) (py_str value) result) parameters uri"

text \<open>The expression \<open>parameters or {}\<close>, on an optional mapping.\<close>

definition or_empty :: "py_dict option \<Rightarrow> py_dict" where
  "or_empty parameters = (case parameters of None \<Rightarrow> [] | Some d \<Rightarrow> d)"

text \<open>\<open>Resource.validate_parameters\<close>: \<open>return parameters or {}\<close>.\<close>

definition validate_parameters :: "py_dict option \<Rightarrow> py_dict" where
  "validate_parameters parameters = or_empty parameters"

section \<open>The substitution in the words of the specification\<close>

text \<open>
  The specification describes one replacement of the placeholders found in the URI: the
  URI is read once from left to right; where \<open>{key}\<close> stands for a key of the mapping,
  the string form of its value is put and not read again; every other character, and so
  every placeholder that names no key, is kept.
\<close>

function substitute_spec :: "py_dict \<Rightarrow> string \<Rightarrow> string" where
  "substitute_spec parameters [] = []"
| "substitute_spec parameters (c # cs) =
     (case find (\<lambda>(key, value). prefix (placeholder key) (c # cs)) parameters of
        Some (key, value) \<Rightarrow>
          py_str value @ substitute_spec parameters (drop (length (placeholder key)) (c # cs))
      | None \<Rightarrow> c # substitute_spec parameters cs)"
  by pat_completeness auto
termination
  by (relation "measure (\<lambda>(parameters, s). length s)") (auto simp: placeholder_def)

text \<open>
  Keys without braces, and URIs whose braces are not nested: after a \<open>{\<close>, the next
  brace, if there is one, is a \<open>}\<close>.
\<close>

definition no_brace :: "string \<Rightarrow> bool" where
  "no_brace s = (CHR ''{'' \<notin> set s \<and> CHR ''}'' \<notin> set s)"

fun closes :: "string \<Rightarrow> bool" where
  "closes [] = True"
| "closes (c # cs) = (if c = CHR ''}'' then True else if c = CHR ''{'' then False else closes cs)"

fun flat_braces :: "string \<Rightarrow> bool" where
  "flat_braces [] = True"
| "flat_braces (c # cs) = (if c = CHR ''{'' then closes cs \<and> flat_braces cs else flat_braces cs)"

text \<open>Mappings whose keys hold no brace, and whose values hold no \<open>{\<close> in their string form.\<close>

definition plain_keys :: "py_dict \<Rightarrow> bool" where
  "plain_keys parameters = list_all (\<lambda>(key, value). no_brace key) parameters"

definition plain_values :: "py_dict \<Rightarrow> bool" where
  "plain_values parameters = list_all (\<lambda>(key, value). CHR ''{'' \<notin> set (py_str value)) parameters"

section \<open>base.py: ResourceParameter and ResourceConfig\<close>

datatype ResourceAccessType = PUBLIC | MCP_SERVER

text \<open>\<open>allowed_values: Union[str, List[str]]\<close>.\<close>

datatype allowed = AllowedStr string | AllowedList "string list"

record resource_parameter =
  param_name :: string
  param_description :: string
  allowed_values :: allowed

text \<open>
  The field \<open>type\<close> is \<open>resource_type\<close> here and the field \<open>function\<close> is
  \<open>function_name\<close>.
\<close>

record resource_config =
  name :: string
  description :: string
  resource_type :: string
  access :: ResourceAccessType
  uri :: string
  function_name :: "string option"
  resource_parameters :: "resource_parameter list"
  params :: py_dict

text \<open>The schema is a Python dictionary of strings, lists and dictionaries.\<close>

datatype json = JStr string | JList "json list" | JObj "(string \<times> json) list"

text \<open>
  \<open>d[k] = v\<close> on an insertion-ordered dictionary: an existing key keeps its place and
  takes the new value, a new key goes to the end.
\<close>

fun dict_set :: "string \<Rightarrow> 'v \<Rightarrow> (string \<times> 'v) list \<Rightarrow> (string \<times> 'v) list" where
  "dict_set k v [] = [(k, v)]"
| "dict_set k v ((k', v') # d) = (if k = k' then (k, v) # d else (k', v') # dict_set k v d)"

text \<open>\<open>d.get(k)\<close>.\<close>

definition dict_get :: "(string \<times> 'v) list \<Rightarrow> string \<Rightarrow> 'v option" where
  "dict_get d k = map_of d k"

text \<open>The body of the loop up to \<open>properties[param.name] = param_schema\<close>.\<close>

definition param_schema :: "resource_parameter \<Rightarrow> (string \<times> json) list" where
  "param_schema param =
     (case allowed_values param of
        AllowedStr s \<Rightarrow>
          (if s = ''string'' then [(''description'', JStr (param_description param)), (''type'', JStr ''string'')]
           else if s = ''number'' then [(''description'', JStr (param_description param)), (''type'', JStr ''number'')]
           else if s = ''boolean'' then [(''description'', JStr (param_description param)), (''type'', JStr ''boolean'')]
           else [(''description'', JStr (param_description param)), (''type'', JStr ''string'')])
      | AllowedList vs \<Rightarrow>
          [(''description'', JStr (param_description param)), (''type'', JStr ''string''),
           (''enum'', JList (map JStr vs))])"

text \<open>One turn of the loop, on the pair of \<open>properties\<close> and \<open>required\<close>.\<close>

definition schema_step ::
  "resource_parameter \<Rightarrow> (string \<times> json) list \<times> string list \<Rightarrow> (string \<times> json) list \<times> string list" where
  "schema_step param acc =
     (dict_set (param_name param) (JObj (param_schema param)) (fst acc), snd acc @ [param_name param])"

text \<open>
  \<open>ResourceConfig.get_parameter_schema\<close>; \<open>Resource.get_parameter_schema\<close> has the same
  body, on the parameters copied from the configuration.
\<close>

definition get_parameter_schema :: "resource_config \<Rightarrow> json" where
  "get_parameter_schema self =
     (if resource_parameters self = [] then JObj [(''type'', JStr ''object''), (''properties'', JObj [])]
      else (let acc = fold schema_step (resource_parameters self) ([], [])
            in JObj [(''type'', JStr ''object''), (''properties'', JObj (fst acc)),
                     (''required'', JList (map JStr (snd acc)))]))"

text \<open>Reading an entry of a schema, and the keys of a dictionary-valued entry.\<close>

fun entry :: "json \<Rightarrow> string \<Rightarrow> json option" where
  "entry (JObj d) k = dict_get d k"
| "entry _ k = None"

fun keys :: "json \<Rightarrow> string list" where
  "keys (JObj d) = map fst d"
| "keys _ = []"

section \<open>Exceptions\<close>

text \<open>
  Every failure of the two providers is a \<open>ValueError\<close> with a message; the other
  constructors are what the HTTP client and a handler call can raise.
\<close>

datatype py_exn =
    ValueError string
  | TypeError string
  | AttributeError string
  | RequestError string
  | OtherException string

fun exn_str :: "py_exn \<Rightarrow> string" where
  "exn_str (ValueError m) = m"
| "exn_str (TypeError m) = m"
| "exn_str (AttributeError m) = m"
| "exn_str (RequestError m) = m"
| "exn_str (OtherException m) = m"

definition apostrophe :: char where
  "apostrophe = CHR 0x27"

definition quoted :: "string \<Rightarrow> string" where
  "quoted s = apostrophe # s @ [apostrophe]"

text \<open>
  Both provider classes keep the list \<open>resource_instances\<close> their constructor builds and
  read nothing else of themselves in the methods below.
\<close>

record provider =
  resource_instances :: "resource_config list"

definition multi_resource_error :: py_exn where
  "multi_resource_error = ValueError ''Multi-resource classes need specific resource selection''"

definition not_found_error :: "string \<Rightarrow> py_exn" where
  "not_found_error resource_name = ValueError (''Resource '' @ quoted resource_name @ '' not found'')"

section \<open>publichttpresource.py: HttpResource\<close>

text \<open>
  The network is a parameter: what \<open>client.get(url)\<close> does for a URL, a response or an
  exception raised (\<open>RequestError\<close> for \<open>httpx.RequestError\<close>). The field
  \<open>text\<close> of a response is \<open>response_text\<close> here.
\<close>

record http_response =
  status_code :: int
  response_text :: string

type_synonym network = "string \<Rightarrow> py_exn + http_response"

text \<open>The body of the \<open>try\<close> statement.\<close>

definition try_get :: "network \<Rightarrow> string \<Rightarrow> py_exn + string" where
  "try_get net url =
     (case net url of
        Inl e \<Rightarrow> Inl e
      | Inr response \<Rightarrow>
          (if status_code response = 200 then Inr (response_text response)
           else Inl (ValueError (''HTTP error '' @ str_int (status_code response) @ '' when fetching '' @ url))))"

text \<open>
  The two \<open>except\<close> clauses, tried in order on whatever the body raised:
  \<open>except httpx.RequestError\<close>, then \<open>except Exception\<close>.
\<close>

definition except_clauses :: "string \<Rightarrow> py_exn + string \<Rightarrow> py_exn + string" where
  "except_clauses url r =
     (case r of
        Inr content \<Rightarrow> Inr content
      | Inl (RequestError m) \<Rightarrow> Inl (ValueError (''Failed to fetch resource from '' @ url @ '': '' @ m))
      | Inl e \<Rightarrow> Inl (ValueError (''Unexpected error fetching '' @ url @ '': '' @ exn_str e)))"

text \<open>\<open>if parameters:\<close> holds for a mapping with an entry.\<close>

definition truthy :: "py_dict option \<Rightarrow> bool" where
  "truthy parameters = (case parameters of None \<Rightarrow> False | Some d \<Rightarrow> d \<noteq> [])"

text \<open>The URL after the substitution step.\<close>

definition target_url :: "resource_config \<Rightarrow> py_dict option \<Rightarrow> string" where
  "target_url resource_config parameters =
     (if truthy parameters
      then substitute_parameters (uri resource_config) (validate_parameters parameters)
      else uri resource_config)"

definition http_scheme :: "string \<Rightarrow> bool" where
  "http_scheme url = (prefix ''http://'' url \<or> prefix ''https://'' url)"

text \<open>
  \<open>HttpResource._fetch_http_content\<close>. The result is the list of the URLs requested from
  the network and what the call returns or raises.
\<close>

definition fetch_http_content ::
  "network \<Rightarrow> resource_config \<Rightarrow> py_dict option \<Rightarrow> string list \<times> (py_exn + string)" where
  "fetch_http_content net resource_config parameters =
     (let url = target_url resource_config parameters
      in if \<not> http_scheme url
         then ([], Inl (ValueError (''Invalid URL scheme for public resource: '' @ url)))
         else ([url], except_clauses url (try_get net url)))"

definition http_get_content ::
  "network \<Rightarrow> provider \<Rightarrow> py_dict option \<Rightarrow> string list \<times> (py_exn + string)" where
  "http_get_content net self parameters =
     (if length (resource_instances self) = 1
      then fetch_http_content net (resource_instances self ! 0) parameters
      else ([], Inl multi_resource_error))"

definition http_get_resource_content ::
  "network \<Rightarrow> provider \<Rightarrow> string \<Rightarrow> py_dict option \<Rightarrow> string list \<times> (py_exn + string)" where
  "http_get_resource_content net self resource_name parameters =
     (case find (\<lambda>res. name res = resource_name) (resource_instances self) of
        None \<Rightarrow> ([], Inl (not_found_error resource_name))
      | Some resource_config \<Rightarrow> fetch_http_content net resource_config parameters)"

section \<open>privateresourceexample.py: ExamplePrivateResources\<close>

text \<open>
  \<open>getattr(self, function_name)\<close> is a parameter: the attribute of the instance under a
  name, when \<open>hasattr\<close> holds. An attribute can be called with the parameters mapping,
  or is a value that cannot be called, of the type named. What a call returns is a
  coroutine, which gives a string or raises when it is awaited, or a value that cannot be
  awaited, of the type named; the call itself may raise.
\<close>

datatype py_object = Coroutine "py_exn + string" | NotAwaitable string

datatype py_attr = Callable "py_dict \<Rightarrow> py_exn + py_object" | NotCallable string

type_synonym attributes = "string \<Rightarrow> py_attr option"

text \<open>The call \<open>function_method(parameters or {})\<close>.\<close>

definition call_attr :: "py_attr \<Rightarrow> py_dict \<Rightarrow> py_exn + py_object" where
  "call_attr a parameters =
     (case a of
        Callable f \<Rightarrow> f parameters
      | NotCallable ty \<Rightarrow> Inl (TypeError (quoted ty @ '' object is not callable'')))"

text \<open>The \<open>await\<close> on what the call returned.\<close>

definition await_object :: "py_object \<Rightarrow> py_exn + string" where
  "await_object obj =
     (case obj of
        Coroutine r \<Rightarrow> r
      | NotAwaitable ty \<Rightarrow>
          Inl (TypeError (''object '' @ ty @ '' can'' @ [apostrophe] @ ''t be used in '' @ quoted ''await'' @ '' expression'')))"

text \<open>
  \<open>ExamplePrivateResources._get_mcp_content\<close>. The test \<open>not resource_config.function\<close>
  holds for \<open>None\<close> and for the empty string.
\<close>

definition get_mcp_content ::
  "attributes \<Rightarrow> resource_config \<Rightarrow> py_dict option \<Rightarrow> py_exn + string" where
  "get_mcp_content attrs resource_config parameters =
     (case function_name resource_config of
        None \<Rightarrow>
          Inl (ValueError (''No function specified for mcp_server resource '' @ quoted (name resource_config)))
      | Some fn \<Rightarrow>
          if fn = []
          then Inl (ValueError (''No function specified for mcp_server resource '' @ quoted (name resource_config)))
          else (case attrs fn of
                  Some function_method \<Rightarrow>
                    (case call_attr function_method (or_empty parameters) of
                       Inl e \<Rightarrow> Inl e
                     | Inr obj \<Rightarrow> await_object obj)
                | None \<Rightarrow> Inl (ValueError (''Function '' @ quoted fn @ '' not found in resource class''))))"

definition private_get_content ::
  "attributes \<Rightarrow> provider \<Rightarrow> py_dict option \<Rightarrow> py_exn + string" where
  "private_get_content attrs self parameters =
     (if length (resource_instances self) = 1
      then get_mcp_content attrs (resource_instances self ! 0) parameters
      else Inl multi_resource_error)"

definition private_get_resource_content ::
  "attributes \<Rightarrow> provider \<Rightarrow> string \<Rightarrow> py_dict option \<Rightarrow> py_exn + string" where
  "private_get_resource_content attrs self resource_name parameters =
     (case find (\<lambda>res. name res = resource_name) (resource_instances self) of
        None \<Rightarrow> Inl (not_found_error resource_name)
      | Some resource_config \<Rightarrow> get_mcp_content attrs resource_config parameters)"

text \<open>
  \<open>str.lower()\<close>. Below 256 the code points it changes are the upper-case letters, 65
  to 90, 192 to 214 and 216 to 222, each to the code point 32 above.
\<close>

definition lower_char :: "char \<Rightarrow> char" where
  "lower_char c =
     (let n = (of_char c :: nat)
      in if (65 \<le> n \<and> n \<le> 90) \<or> (192 \<le> n \<and> n \<le> 214) \<or> (216 \<le> n \<and> n \<le> 222)
         then char_of (n + 32) else c)"

definition lower :: "string \<Rightarrow> string" where
  "lower s = map lower_char s"

fun type_name :: "py_value \<Rightarrow> string" where
  "type_name (PyStr s) = ''str''"
| "type_name (PyInt i) = ''int''"
| "type_name (PyBool b) = ''bool''"
| "type_name PyNone = ''NoneType''"

text \<open>
  \<open>ExamplePrivateResources._sample_parameterized_resource\<close>:
  \<open>parameters.get("client", "").lower()\<close> raises when the value is not a string.
\<close>

definition sample_parameterized_resource :: "py_dict \<Rightarrow> py_exn + string" where
  "sample_parameterized_resource parameters =
     (case (case dict_get parameters ''client'' of None \<Rightarrow> PyStr [] | Some v \<Rightarrow> v) of
        PyStr s \<Rightarrow>
          (let client = lower s
           in if client = ''acme'' then Inr ''This is the roadrunner client''
              else if client = ''bigrock'' then Inr ''We make tools to smash birds''
              else Inr (''Unknown client: '' @ client @ ''. Available clients: acme, bigrock''))
      | v \<Rightarrow> Inl (AttributeError (quoted (type_name v) @ '' object has no attribute '' @ quoted ''lower'')))"

text \<open>
  The attributes the constructor assigns to an instance built from a configuration
  dictionary whose resources are a list and whose name and description are strings: two
  lists and two strings.
\<close>

definition constructor_attrs :: "(string \<times> py_attr) list" where
  "constructor_attrs =
     [(''resources_config'', NotCallable ''list''),
      (''class_name'', NotCallable ''str''),
      (''class_description'', NotCallable ''str''),
      (''resource_instances'', NotCallable ''list'')]"

text \<open>
  \<open>getattr\<close> on such an instance of \<open>ExamplePrivateResources\<close>: an attribute the
  constructor assigned is found first; \<open>_sample_parameterized_resource\<close> is the method
  above, an \<open>async def\<close>, so that a call returns a coroutine; every other name is looked
  up in \<open>other\<close>, a parameter, which stands for the remaining attributes of the class
  and of its bases (the other methods of the two classes, and what every Python object
  has).
\<close>

definition instance_attrs :: "attributes \<Rightarrow> attributes" where
  "instance_attrs other attr_name =
     (case map_of constructor_attrs attr_name of
        Some a \<Rightarrow> Some a
      | None \<Rightarrow>
          if attr_name = ''_sample_parameterized_resource''
          then Some (Callable (\<lambda>parameters. Inr (Coroutine (sample_parameterized_resource parameters))))
          else other attr_name)"

section \<open>Example configurations\<close>

definition countries :: resource_config where
  "countries =
     \<lparr>name = ''countries'', description = ''Country data'', resource_type = ''json'', access = PUBLIC,
      uri = ''https://example.org/countries'', function_name = None, resource_parameters = [],
      params = []\<rparr>"

definition items :: resource_config where
  "items =
     \<lparr>name = ''items'', description = ''One item'', resource_type = ''json'', access = PUBLIC,
      uri = ''{scheme}://example.org/items/{id}'', function_name = None,
      resource_parameters =
        [\<lparr>param_name = ''scheme'', param_description = ''URL scheme'',
          allowed_values = AllowedList [''http'', ''https'']\<rparr>,
         \<lparr>param_name = ''id'', param_description = ''Item number'', allowed_values = AllowedStr ''number''\<rparr>],
      params = []\<rparr>"

definition sample :: resource_config where
  "sample =
     \<lparr>name = ''sample'', description = ''Sample text'', resource_type = ''txt'', access = MCP_SERVER,
      uri = ''mcp://sample/{client}'', function_name = Some ''_sample_parameterized_resource'',
      resource_parameters =
        [\<lparr>param_name = ''client'', param_description = ''Client name'',
          allowed_values = AllowedList [''acme'', ''bigrock'']\<rparr>],
      params = []\<rparr>"

definition sample_shadowed :: resource_config where
  "sample_shadowed = sample\<lparr>description := ''Second entry of the same name'', function_name := None\<rparr>"

definition ok_net :: network where
  "ok_net url = Inr \<lparr>status_code = 200, response_text = ''a,b''\<rparr>"

definition not_found_net :: network where
  "not_found_net url = Inr \<lparr>status_code = 404, response_text = ''no such page''\<rparr>"

section \<open>Substitution of parameters\<close>

text \<open>
  A URI whose braces are not nested is empty, or starts with a character other than
  \<open>{\<close>, or starts with a placeholder whose name holds no brace, or is a \<open>{\<close>
  followed by text without braces. Both substitutions are computed on these four shapes.
\<close>

lemma placeholder_not_Nil [simp]: "placeholder k \<noteq> []"
  by (simp add: placeholder_def)

lemma length_placeholder: "length (placeholder k) = length k + 2"
  by (simp add: placeholder_def)

lemma prefix_key:
  "no_brace k \<Longrightarrow> no_brace w \<Longrightarrow> prefix (k @ ''}'') (w @ CHR ''}'' # rest) \<longleftrightarrow> k = w"
proof (induction k arbitrary: w)
  case Nil
  then show ?case by (cases w) (auto simp: no_brace_def)
next
  case (Cons a k)
  then show ?case by (cases w) (auto simp: no_brace_def)
qed

lemma prefix_placeholder:
  "no_brace k \<Longrightarrow> no_brace w \<Longrightarrow> prefix (placeholder k) (placeholder w @ rest) \<longleftrightarrow> k = w"
  using prefix_key [of k w rest] by (simp add: placeholder_def)

lemma prefix_placeholder_Cons: "prefix (placeholder k) (c # cs) \<Longrightarrow> c = CHR ''{''"
  by (simp add: placeholder_def)

lemma prefix_placeholder_closed: "prefix (placeholder k) (c # cs) \<Longrightarrow> CHR ''}'' \<in> set cs"
  by (auto simp: placeholder_def prefix_def)

lemma closes_cases:
  "closes cs \<Longrightarrow> (\<exists>w rest. cs = w @ CHR ''}'' # rest \<and> no_brace w) \<or> no_brace cs"
proof (induction cs)
  case Nil
  then show ?case by (simp add: no_brace_def)
next
  case (Cons c cs)
  show ?case
  proof (cases "c = CHR ''}''")
    case True
    then have "c # cs = [] @ CHR ''}'' # cs \<and> no_brace []" by (simp add: no_brace_def)
    then show ?thesis by blast
  next
    case False
    with Cons.prems have c: "c \<noteq> CHR ''{''" and cl: "closes cs" by (auto split: if_splits)
    from Cons.IH [OF cl] show ?thesis
    proof
      assume "\<exists>w rest. cs = w @ CHR ''}'' # rest \<and> no_brace w"
      then obtain w rest where "cs = w @ CHR ''}'' # rest" "no_brace w" by blast
      then have "c # cs = (c # w) @ CHR ''}'' # rest \<and> no_brace (c # w)"
        using False c by (simp add: no_brace_def)
      then show ?thesis by blast
    next
      assume "no_brace cs"
      then have "no_brace (c # cs)" using False c by (simp add: no_brace_def)
      then show ?thesis by blast
    qed
  qed
qed

lemma flat_cases:
  assumes "flat_braces s"
  obtains (empty) "s = []"
    | (char) c cs where "s = c # cs" "c \<noteq> CHR ''{''"
    | (hole) w rest where "s = placeholder w @ rest" "no_brace w"
    | (unclosed) cs where "s = CHR ''{'' # cs" "no_brace cs"
proof (cases s)
  case Nil
  then show ?thesis by (rule empty)
next
  case (Cons c cs)
  show ?thesis
  proof (cases "c = CHR ''{''")
    case False
    with Cons show ?thesis by (rule char)
  next
    case True
    with assms Cons have "closes cs" by simp
    from closes_cases [OF this] show ?thesis
    proof
      assume "\<exists>w rest. cs = w @ CHR ''}'' # rest \<and> no_brace w"
      then obtain w rest where "cs = w @ CHR ''}'' # rest" "no_brace w" by blast
      then have "s = placeholder w @ rest" using Cons True by (simp add: placeholder_def)
      then show ?thesis using \<open>no_brace w\<close> by (rule hole)
    next
      assume "no_brace cs"
      with Cons True show ?thesis by (intro unclosed) auto
    qed
  qed
qed


subsection \<open>One replacement on the four shapes\<close>

lemma replace_char:
  "c \<noteq> CHR ''{'' \<Longrightarrow>
   replace_str (placeholder k) v (c # cs) = c # replace_str (placeholder k) v cs"
  using prefix_placeholder_Cons [of k c cs] by auto

lemma replace_pre:
  "CHR ''{'' \<notin> set pre \<Longrightarrow>
   replace_str (placeholder k) v (pre @ s) = pre @ replace_str (placeholder k) v s"
proof (induction pre)
  case Nil
  then show ?case by simp
next
  case (Cons a pre)
  then have "a \<noteq> CHR ''{''" by auto
  then have "replace_str (placeholder k) v (a # pre @ s) = a # replace_str (placeholder k) v (pre @ s)"
    by (rule replace_char)
  then show ?case using Cons by simp
qed

lemma replace_no_open:
  "CHR ''{'' \<notin> set s \<Longrightarrow> replace_str (placeholder k) v s = s"
  using replace_pre [of s k v "[]"] by simp

lemma replace_hole:
  assumes "no_brace k" "no_brace w"
  shows "replace_str (placeholder k) v (placeholder w @ rest) =
           (if w = k then v @ replace_str (placeholder k) v rest
            else placeholder w @ replace_str (placeholder k) v rest)"
proof (cases "w = k")
  case True
  have "placeholder k @ rest = CHR ''{'' # (k @ ''}'') @ rest"
    by (simp add: placeholder_def)
  moreover have "prefix (placeholder k) (placeholder k @ rest)" by simp
  moreover have "drop (length (placeholder k)) (placeholder k @ rest) = rest" by simp
  ultimately have "replace_str (placeholder k) v (placeholder k @ rest) =
      v @ replace_str (placeholder k) v rest"
    by (metis placeholder_not_Nil replace_str.simps(2))
  with True show ?thesis by simp
next
  case False
  then have np: "\<not> prefix (placeholder k) (placeholder w @ rest)"
    using prefix_placeholder [OF assms, of rest] by auto
  have shape: "placeholder w @ rest = CHR ''{'' # (w @ ''}'') @ rest"
    by (simp add: placeholder_def)
  have "replace_str (placeholder k) v (CHR ''{'' # (w @ ''}'') @ rest) =
        CHR ''{'' # replace_str (placeholder k) v ((w @ ''}'') @ rest)"
    using np unfolding shape by (simp del: append_assoc)
  also have "replace_str (placeholder k) v ((w @ ''}'') @ rest) =
        (w @ ''}'') @ replace_str (placeholder k) v rest"
    using assms(2) by (intro replace_pre) (simp add: no_brace_def)
  finally show ?thesis using False by (simp add: placeholder_def)
qed

lemma replace_unclosed:
  "no_brace cs \<Longrightarrow> replace_str (placeholder k) v (CHR ''{'' # cs) = CHR ''{'' # cs"
proof -
  assume nb: "no_brace cs"
  then have "\<not> prefix (placeholder k) (CHR ''{'' # cs)"
    using prefix_placeholder_closed [of k "CHR ''{''" cs] by (auto simp: no_brace_def)
  then have "replace_str (placeholder k) v (CHR ''{'' # cs) = CHR ''{'' # replace_str (placeholder k) v cs"
    by simp
  then show ?thesis using nb by (simp add: replace_no_open no_brace_def del: replace_str.simps)
qed

subsection \<open>The single pass on the four shapes\<close>

lemma find_no_match:
  "\<forall>kv \<in> set ps. \<not> P kv \<Longrightarrow> find P ps = None"
  by (induction ps) auto

lemma spec_char:
  "c \<noteq> CHR ''{'' \<Longrightarrow> substitute_spec ps (c # cs) = c # substitute_spec ps cs"
proof -
  assume c: "c \<noteq> CHR ''{''"
  have "find (\<lambda>(key, value). prefix (placeholder key) (c # cs)) ps = None"
    using c prefix_placeholder_Cons by (intro find_no_match) auto
  then show ?thesis by simp
qed

lemma spec_pre:
  "CHR ''{'' \<notin> set pre \<Longrightarrow> substitute_spec ps (pre @ s) = pre @ substitute_spec ps s"
proof (induction pre)
  case Nil
  then show ?case by simp
next
  case (Cons a pre)
  then have "a \<noteq> CHR ''{''" by auto
  then have "substitute_spec ps (a # pre @ s) = a # substitute_spec ps (pre @ s)"
    by (rule spec_char)
  then show ?case using Cons by simp
qed

lemma spec_unclosed:
  "no_brace cs \<Longrightarrow> substitute_spec ps (CHR ''{'' # cs) = CHR ''{'' # cs"
proof -
  assume nb: "no_brace cs"
  have "find (\<lambda>(key, value). prefix (placeholder key) (CHR ''{'' # cs)) ps = None"
    using nb prefix_placeholder_closed by (intro find_no_match) (auto simp: no_brace_def)
  then have "substitute_spec ps (CHR ''{'' # cs) = CHR ''{'' # substitute_spec ps cs"
    by simp
  moreover have "substitute_spec ps cs = cs"
    using nb spec_pre [of cs ps "[]"] by (simp add: no_brace_def)
  ultimately show ?thesis by simp
qed

lemma find_key:
  "plain_keys ps \<Longrightarrow> no_brace w \<Longrightarrow>
   find (\<lambda>(key, value). prefix (placeholder key) (placeholder w @ rest)) ps =
   find (\<lambda>(key, value). key = w) ps"
proof (induction ps)
  case Nil
  then show ?case by simp
next
  case (Cons kv ps)
  obtain k v where kv: "kv = (k, v)" by (cases kv)
  have "no_brace k" using Cons.prems(1) kv by (simp add: plain_keys_def)
  then have "prefix (placeholder k) (placeholder w @ rest) \<longleftrightarrow> k = w"
    using Cons.prems(2) by (rule prefix_placeholder)
  moreover have "plain_keys ps" using Cons.prems(1) by (simp add: plain_keys_def)
  ultimately show ?case using Cons.IH Cons.prems(2) kv by simp
qed

lemma spec_hole:
  assumes "plain_keys ps" "no_brace w"
  shows "substitute_spec ps (placeholder w @ rest) =
           (case find (\<lambda>(key, value). key = w) ps of
              Some (key, value) \<Rightarrow> py_str value @ substitute_spec ps rest
            | None \<Rightarrow> placeholder w @ substitute_spec ps rest)"
proof -
  have shape: "placeholder w @ rest = CHR ''{'' # (w @ ''}'') @ rest"
    by (simp add: placeholder_def)
  let ?f = "find (\<lambda>(key, value). prefix (placeholder key) (CHR ''{'' # (w @ ''}'') @ rest)) ps"
  have f: "?f = find (\<lambda>(key, value). key = w) ps"
    using find_key [OF assms, of rest] unfolding shape .
  show ?thesis
  proof (cases "find (\<lambda>(key, value). key = w) ps")
    case None
    then have "substitute_spec ps (CHR ''{'' # (w @ ''}'') @ rest) =
        CHR ''{'' # substitute_spec ps ((w @ ''}'') @ rest)"
      using f by (simp del: append_assoc)
    also have "substitute_spec ps ((w @ ''}'') @ rest) = (w @ ''}'') @ substitute_spec ps rest"
      using assms(2) by (intro spec_pre) (simp add: no_brace_def)
    finally show ?thesis using None by (simp add: placeholder_def)
  next
    case (Some kv)
    obtain k v where kv: "kv = (k, v)" by (cases kv)
    have kw: "k = w"
      using Some kv by (auto simp: find_Some_iff)
    have "drop (length (placeholder k)) (placeholder w @ rest) = rest"
      using kw by simp
    then have d: "drop (length (placeholder k)) (CHR ''{'' # (w @ ''}'') @ rest) = rest"
      unfolding shape .
    have "substitute_spec ps (CHR ''{'' # (w @ ''}'') @ rest) =
        py_str v @ substitute_spec ps (drop (length (placeholder k)) (CHR ''{'' # (w @ ''}'') @ rest))"
      using f Some kv by (simp del: append_assoc)
    then show ?thesis using d Some kv shape by simp
  qed
qed


subsection \<open>Braces that are not nested\<close>

lemma flat_pre: "CHR ''{'' \<notin> set pre \<Longrightarrow> flat_braces (pre @ s) = flat_braces s"
  by (induction pre) auto

lemma closes_pre: "CHR ''{'' \<notin> set w \<Longrightarrow> closes (w @ CHR ''}'' # s)"
  by (induction w) auto

lemma closes_no_brace: "no_brace cs \<Longrightarrow> closes cs"
  by (induction cs) (auto simp: no_brace_def)

lemma flat_hole: "no_brace w \<Longrightarrow> flat_braces (placeholder w @ s) = flat_braces s"
proof -
  assume nb: "no_brace w"
  then have a: "closes (w @ CHR ''}'' # s)"
    by (simp add: closes_pre no_brace_def)
  have "flat_braces ((w @ ''}'') @ s) = flat_braces s"
    using nb by (intro flat_pre) (simp add: no_brace_def)
  then show ?thesis using a by (simp add: placeholder_def)
qed

lemma flat_unclosed: "no_brace cs \<Longrightarrow> flat_braces (CHR ''{'' # cs)"
  using flat_pre [of cs "[]"] by (simp add: closes_no_brace no_brace_def)

lemma flat_tail: "flat_braces (c # cs) \<Longrightarrow> flat_braces cs"
  by (simp split: if_splits)

subsection \<open>One replacement, then the single pass\<close>

lemma plain_keys_Cons: "plain_keys ((k, val) # ps) \<longleftrightarrow> no_brace k \<and> plain_keys ps"
  by (simp add: plain_keys_def)

lemma spec_after_replace:
  assumes k: "no_brace k" and v: "CHR ''{'' \<notin> set (py_str val)" and ks: "plain_keys ps"
  shows "flat_braces s \<Longrightarrow>
         substitute_spec ps (replace_str (placeholder k) (py_str val) s) =
         substitute_spec ((k, val) # ps) s"
proof (induction s rule: length_induct)
  case (1 s)
  have ks': "plain_keys ((k, val) # ps)"
    using k ks by (simp add: plain_keys_Cons)
  have IH: "substitute_spec ps (replace_str (placeholder k) (py_str val) t) =
            substitute_spec ((k, val) # ps) t"
    if "length t < length s" "flat_braces t" for t
    using 1 that by blast
  from \<open>flat_braces s\<close> show ?case
  proof (cases rule: flat_cases)
    case empty
    then show ?thesis by simp
  next
    case (char c cs)
    have "flat_braces cs" using 1(2) char(1) flat_tail by blast
    then have "substitute_spec ps (replace_str (placeholder k) (py_str val) cs) =
               substitute_spec ((k, val) # ps) cs"
      using char(1) by (intro IH) simp_all
    then show ?thesis
      using char by (simp add: replace_char spec_char del: replace_str.simps substitute_spec.simps)
  next
    case (hole w rest)
    have fr: "flat_braces rest" using 1(2) hole by (simp add: flat_hole)
    have ih: "substitute_spec ps (replace_str (placeholder k) (py_str val) rest) =
              substitute_spec ((k, val) # ps) rest"
      using fr hole(1) by (intro IH) (simp_all add: length_placeholder)
    show ?thesis
    proof (cases "w = k")
      case True
      have "substitute_spec ps (replace_str (placeholder k) (py_str val) s) =
            py_str val @ substitute_spec ps (replace_str (placeholder k) (py_str val) rest)"
        using True hole k by (simp add: replace_hole spec_pre v)
      moreover have "substitute_spec ((k, val) # ps) s = py_str val @ substitute_spec ((k, val) # ps) rest"
        using True hole by (simp add: spec_hole [OF ks'])
      ultimately show ?thesis using ih by simp
    next
      case False
      have lhs: "substitute_spec ps (replace_str (placeholder k) (py_str val) s) =
            (case find (\<lambda>(key, value). key = w) ps of
               Some (key, value) \<Rightarrow> py_str value @ substitute_spec ps (replace_str (placeholder k) (py_str val) rest)
             | None \<Rightarrow> placeholder w @ substitute_spec ps (replace_str (placeholder k) (py_str val) rest))"
        using False hole k by (simp add: replace_hole spec_hole [OF ks])
      have rhs: "substitute_spec ((k, val) # ps) s =
            (case find (\<lambda>(key, value). key = w) ps of
               Some (key, value) \<Rightarrow> py_str value @ substitute_spec ((k, val) # ps) rest
             | None \<Rightarrow> placeholder w @ substitute_spec ((k, val) # ps) rest)"
        using False hole by (simp add: spec_hole [OF ks'])
      show ?thesis unfolding lhs rhs ih ..
    qed
  next
    case (unclosed cs)
    then show ?thesis
      by (simp add: replace_unclosed spec_unclosed del: replace_str.simps substitute_spec.simps)
  qed
qed

lemma flat_after_replace:
  assumes k: "no_brace k" and v: "CHR ''{'' \<notin> set new"
  shows "flat_braces s \<Longrightarrow> flat_braces (replace_str (placeholder k) new s)"
proof (induction s rule: length_induct)
  case (1 s)
  have IH: "flat_braces (replace_str (placeholder k) new t)"
    if "length t < length s" "flat_braces t" for t
    using 1 that by blast
  from \<open>flat_braces s\<close> show ?case
  proof (cases rule: flat_cases)
    case empty
    then show ?thesis by simp
  next
    case (char c cs)
    have "flat_braces cs" using 1(2) char(1) flat_tail by blast
    then have "flat_braces (replace_str (placeholder k) new cs)"
      using char(1) by (intro IH) simp_all
    then show ?thesis
      using char by (simp add: replace_char del: replace_str.simps)
  next
    case (hole w rest)
    have fr: "flat_braces rest" using 1(2) hole by (simp add: flat_hole)
    have ih: "flat_braces (replace_str (placeholder k) new rest)"
      using fr hole(1) by (intro IH) (simp_all add: length_placeholder)
    show ?thesis
      using hole k ih by (simp add: replace_hole flat_hole flat_pre v)
  next
    case (unclosed cs)
    then show ?thesis
      using 1(2) by (simp add: replace_unclosed del: replace_str.simps flat_braces.simps)
  qed
qed

lemma spec_no_parameters: "substitute_spec [] s = s"
  by (induction s) simp_all

lemma substitute_parameters_Cons:
  "substitute_parameters template ((k, val) # ps) =
   substitute_parameters (replace_str (placeholder k) (py_str val) template) ps"
  by (simp add: substitute_parameters_def)

lemma sequential_is_single_pass:
  "plain_keys ps \<Longrightarrow> plain_values ps \<Longrightarrow> flat_braces template \<Longrightarrow>
   substitute_parameters template ps = substitute_spec ps template"
proof (induction ps arbitrary: template)
  case Nil
  then show ?case by (simp add: substitute_parameters_def spec_no_parameters)
next
  case (Cons kv ps)
  obtain k val where kv: "kv = (k, val)" by (cases kv)
  have k: "no_brace k" and ks: "plain_keys ps"
    using Cons.prems(1) kv by (simp_all add: plain_keys_def)
  have v: "CHR ''{'' \<notin> set (py_str val)" and vs: "plain_values ps"
    using Cons.prems(2) kv by (simp_all add: plain_values_def)
  have "flat_braces (replace_str (placeholder k) (py_str val) template)"
    using k v Cons.prems(3) by (rule flat_after_replace)
  then have "substitute_parameters (replace_str (placeholder k) (py_str val) template) ps =
             substitute_spec ps (replace_str (placeholder k) (py_str val) template)"
    using ks vs by (intro Cons.IH)
  also have "\<dots> = substitute_spec ((k, val) # ps) template"
    using k v ks Cons.prems(3) by (rule spec_after_replace)
  finally show ?case by (simp add: kv substitute_parameters_Cons)
qed


text \<open>
  What the equality says of the code itself: a character other than \<open>{\<close> is kept, and
  a placeholder at the head of the URI becomes the string form of the value of its key, or
  is kept when it names no key.
\<close>

lemma substitute_parameters_char:
  "c \<noteq> CHR ''{'' \<Longrightarrow> substitute_parameters (c # cs) ps = c # substitute_parameters cs ps"
proof (induction ps arbitrary: cs)
  case Nil
  then show ?case by (simp add: substitute_parameters_def)
next
  case (Cons kv ps)
  obtain k val where kv: "kv = (k, val)" by (cases kv)
  have "replace_str (placeholder k) (py_str val) (c # cs) =
        c # replace_str (placeholder k) (py_str val) cs"
    using Cons.prems by (rule replace_char)
  then show ?case
    using Cons.IH [OF Cons.prems] by (simp add: kv substitute_parameters_Cons)
qed

lemma substitute_parameters_hole:
  assumes "plain_keys ps" and "plain_values ps" and "no_brace w" and "flat_braces rest"
  shows "substitute_parameters (placeholder w @ rest) ps =
           (case find (\<lambda>(key, value). key = w) ps of
              Some (key, value) \<Rightarrow> py_str value @ substitute_parameters rest ps
            | None \<Rightarrow> placeholder w @ substitute_parameters rest ps)"
proof -
  have "flat_braces (placeholder w @ rest)"
    using assms(3,4) by (simp add: flat_hole)
  then have a: "substitute_parameters (placeholder w @ rest) ps = substitute_spec ps (placeholder w @ rest)"
    using assms(1,2) by (intro sequential_is_single_pass)
  have b: "substitute_parameters rest ps = substitute_spec ps rest"
    using assms(1,2,4) by (rule sequential_is_single_pass)
  show ?thesis
    unfolding a b using assms(1,3) by (rule spec_hole)
qed

text \<open>
  C1, as the code has it: when no key holds a brace, the string form of no value holds a
  \<open>{\<close>, and the braces of the URI are not nested, the replacements made pair after
  pair amount to the one replacement of the specification: every \<open>{key}\<close> of the URI
  becomes the string form of the value of that key, and every placeholder that names no key
  is kept. In particular \<open>/items/{id}\<close> with \<open>id\<close> bound to \<open>42\<close> gives
  \<open>/items/42\<close>.
\<close>

theorem substitute_parameters_single_pass:
  assumes "plain_keys parameters" and "plain_values parameters" and "flat_braces template"
  shows "substitute_parameters template parameters = substitute_spec parameters template \<and>
         substitute_parameters ''/items/{id}'' [(''id'', PyStr ''42'')] = ''/items/42''"
proof
  show "substitute_parameters template parameters = substitute_spec parameters template"
    using assms by (rule sequential_is_single_pass)
  show "substitute_parameters ''/items/{id}'' [(''id'', PyStr ''42'')] = ''/items/42''"
    by code_simp
qed

theorem substitute_parameters_single_pass_witness:
  "plain_keys [(''scheme'', PyStr ''https''), (''id'', PyInt 7)] \<and>
   plain_values [(''scheme'', PyStr ''https''), (''id'', PyInt 7)] \<and>
   flat_braces ''{scheme}://example.org/items/{id}?q={q}'' \<and>
   substitute_parameters ''{scheme}://example.org/items/{id}?q={q}''
       [(''scheme'', PyStr ''https''), (''id'', PyInt 7)] =
     substitute_spec [(''scheme'', PyStr ''https''), (''id'', PyInt 7)]
       ''{scheme}://example.org/items/{id}?q={q}'' \<and>
   substitute_spec [(''scheme'', PyStr ''https''), (''id'', PyInt 7)]
       ''{scheme}://example.org/items/{id}?q={q}'' = ''https://example.org/items/7?q={q}''"
proof -
  let ?ps = "[(''scheme'', PyStr ''https''), (''id'', PyInt 7)]"
  let ?t = "''{scheme}://example.org/items/{id}?q={q}''"
  have a: "plain_keys ?ps" by code_simp
  have b: "plain_values ?ps" by code_simp
  have c: "flat_braces ?t" by code_simp
  have d: "substitute_spec ?ps ?t = ''https://example.org/items/7?q={q}''" by code_simp
  show ?thesis
    using a b c d substitute_parameters_single_pass [OF a b c] by blast
qed

text \<open>
  C1 as stated, for every URI and every mapping, fails where a value holds the placeholder
  of a later key: the text put for \<open>{a}\<close> is replaced again.
\<close>

theorem substitution_chain_counterexample:
  "substitute_parameters ''{a}'' [(''a'', PyStr ''{b}''), (''b'', PyStr ''x'')] = ''x'' \<and>
   substitute_spec [(''a'', PyStr ''{b}''), (''b'', PyStr ''x'')] ''{a}'' = ''{b}'' \<and>
   substitute_parameters ''{a}'' [(''a'', PyStr ''{b}''), (''b'', PyStr ''x'')] \<noteq>
     substitute_spec [(''a'', PyStr ''{b}''), (''b'', PyStr ''x'')] ''{a}''"
proof -
  have a: "substitute_parameters ''{a}'' [(''a'', PyStr ''{b}''), (''b'', PyStr ''x'')] = ''x''"
    by code_simp
  have b: "substitute_spec [(''a'', PyStr ''{b}''), (''b'', PyStr ''x'')] ''{a}'' = ''{b}''"
    by code_simp
  show ?thesis unfolding a b by simp
qed

section \<open>The derived parameter schema\<close>

lemma fold_schema_step:
  "distinct (map param_name ps) \<Longrightarrow> set (map param_name ps) \<inter> set (map fst props) = {} \<Longrightarrow>
   fold schema_step ps (props, req) =
     (props @ map (\<lambda>p. (param_name p, JObj (param_schema p))) ps, req @ map param_name ps)"
proof (induction ps arbitrary: props req)
  case Nil
  then show ?case by simp
next
  case (Cons p ps)
  have fresh: "param_name p \<notin> set (map fst props)"
    using Cons.prems(2) by auto
  have set_new: "dict_set (param_name p) v props = props @ [(param_name p, v)]" for v
    using fresh by (induction props) auto
  have "fold schema_step (p # ps) (props, req) =
        fold schema_step ps (props @ [(param_name p, JObj (param_schema p))], req @ [param_name p])"
    by (simp add: schema_step_def set_new)
  also have "\<dots> = ((props @ [(param_name p, JObj (param_schema p))]) @ map (\<lambda>p. (param_name p, JObj (param_schema p))) ps,
                   (req @ [param_name p]) @ map param_name ps)"
    using Cons.prems by (intro Cons.IH) auto
  finally show ?case by simp
qed

lemma count_list_distinct: "distinct xs \<Longrightarrow> x \<in> set xs \<Longrightarrow> count_list xs x = 1"
  by (induction xs) (auto simp: count_list_0_iff)

text \<open>
  C4, as the code has it: for a descriptor with no declared parameter the derived schema
  is the dictionary with the two entries \<open>type\<close> and \<open>properties\<close>; its properties are
  empty and it has no \<open>required\<close> entry.
\<close>

theorem empty_schema:
  "resource_parameters self = [] \<Longrightarrow>
     get_parameter_schema self = JObj [(''type'', JStr ''object''), (''properties'', JObj [])] \<and>
     entry (get_parameter_schema self) ''properties'' = Some (JObj []) \<and>
     entry (get_parameter_schema self) ''required'' = None"
  by (simp add: get_parameter_schema_def dict_get_def)

theorem empty_schema_witness:
  "resource_parameters countries = [] \<and>
   get_parameter_schema countries = JObj [(''type'', JStr ''object''), (''properties'', JObj [])] \<and>
   entry (get_parameter_schema countries) ''properties'' = Some (JObj []) \<and>
   entry (get_parameter_schema countries) ''required'' = None"
proof -
  have e: "resource_parameters countries = []" by (simp add: countries_def)
  show ?thesis using e empty_schema [OF e] by blast
qed

text \<open>
  C4 as stated asks for a \<open>required\<close> entry holding the empty list; the descriptor
  \<open>countries\<close> declares no parameter and its schema has no such entry.
\<close>

theorem empty_schema_required_counterexample:
  "resource_parameters countries = [] \<and>
   entry (get_parameter_schema countries) ''required'' \<noteq> Some (JList [])"
  by (simp add: get_parameter_schema_def dict_get_def countries_def)

text \<open>
  C5: when the declared parameter names are pairwise distinct, the name of each declared
  parameter occurs exactly once among the keys of \<open>properties\<close> and exactly once in
  \<open>required\<close>; so every declared parameter is required.
\<close>

theorem schema_names_once:
  assumes "distinct (map param_name (resource_parameters self))"
    and "p \<in> set (resource_parameters self)"
  shows "\<exists>props req.
           entry (get_parameter_schema self) ''properties'' = Some (JObj props) \<and>
           entry (get_parameter_schema self) ''required'' = Some (JList req) \<and>
           count_list (map fst props) (param_name p) = 1 \<and>
           count_list req (JStr (param_name p)) = 1"
proof -
  let ?ps = "resource_parameters self"
  let ?props = "map (\<lambda>p. (param_name p, JObj (param_schema p))) ?ps"
  let ?req = "map JStr (map param_name ?ps)"
  have ne: "?ps \<noteq> []" using assms(2) by auto
  have acc: "fold schema_step ?ps ([], []) = (?props, map param_name ?ps)"
    using fold_schema_step [OF assms(1), of "[]" "[]"] by simp
  have schema: "get_parameter_schema self =
      JObj [(''type'', JStr ''object''), (''properties'', JObj ?props), (''required'', JList ?req)]"
    using ne by (simp add: get_parameter_schema_def acc)
  have keys_eq: "map fst ?props = map param_name ?ps"
    by (simp add: comp_def)
  have "param_name p \<in> set (map param_name ?ps)" using assms(2) by auto
  then have c1: "count_list (map fst ?props) (param_name p) = 1"
    unfolding keys_eq using assms(1) by (rule count_list_distinct [rotated])
  have "distinct ?req"
    using assms(1) by (simp add: distinct_map inj_on_def)
  moreover have "JStr (param_name p) \<in> set ?req" using assms(2) by auto
  ultimately have c2: "count_list ?req (JStr (param_name p)) = 1"
    by (rule count_list_distinct)
  show ?thesis
    using c1 c2 by (simp add: schema dict_get_def)
qed

theorem schema_names_once_witness:
  "distinct (map param_name (resource_parameters items)) \<and>
   \<lparr>param_name = ''id'', param_description = ''Item number'', allowed_values = AllowedStr ''number''\<rparr>
     \<in> set (resource_parameters items) \<and>
   (\<exists>props req.
      entry (get_parameter_schema items) ''properties'' = Some (JObj props) \<and>
      entry (get_parameter_schema items) ''required'' = Some (JList req) \<and>
      count_list (map fst props) ''id'' = 1 \<and> count_list req (JStr ''id'') = 1)"
proof -
  let ?p = "\<lparr>param_name = ''id'', param_description = ''Item number'', allowed_values = AllowedStr ''number''\<rparr>"
  have d: "distinct (map param_name (resource_parameters items))"
    by (simp add: items_def)
  have m: "?p \<in> set (resource_parameters items)"
    by (simp add: items_def)
  show ?thesis
    using d m schema_names_once [OF d m] by simp
qed

section \<open>The HTTP fetch\<close>

lemma fetch_status_200:
  "http_scheme (target_url rc parameters) \<Longrightarrow> net (target_url rc parameters) = Inr response \<Longrightarrow>
   status_code response = 200 \<Longrightarrow>
   fetch_http_content net rc parameters = ([target_url rc parameters], Inr (response_text response))"
  by (simp add: fetch_http_content_def try_get_def except_clauses_def)

lemma fetch_other_status:
  "http_scheme (target_url rc parameters) \<Longrightarrow> net (target_url rc parameters) = Inr response \<Longrightarrow>
   status_code response \<noteq> 200 \<Longrightarrow>
   fetch_http_content net rc parameters =
     ([target_url rc parameters],
      Inl (ValueError (''Unexpected error fetching '' @ target_url rc parameters @ '': '' @
                       ''HTTP error '' @ str_int (status_code response) @ '' when fetching '' @
                       target_url rc parameters)))"
  by (simp add: fetch_http_content_def try_get_def except_clauses_def Let_def)

lemma fetch_request_error:
  "http_scheme (target_url rc parameters) \<Longrightarrow> net (target_url rc parameters) = Inl (RequestError m) \<Longrightarrow>
   fetch_http_content net rc parameters =
     ([target_url rc parameters],
      Inl (ValueError (''Failed to fetch resource from '' @ target_url rc parameters @ '': '' @ m)))"
  by (simp add: fetch_http_content_def try_get_def except_clauses_def Let_def)

text \<open>
  C2 at a response with status 404: the \<open>ValueError\<close> raised for the status inside the
  \<open>try\<close> statement is caught by its \<open>except Exception\<close> clause, and the caller receives
  the error of that clause, whose message wraps the message for the status.
\<close>

theorem status_404_is_wrapped:
  "fetch_http_content not_found_net countries None =
     ([''https://example.org/countries''],
      Inl (ValueError (''Unexpected error fetching https://example.org/countries: '' @
                       ''HTTP error 404 when fetching https://example.org/countries'')))"
  by code_simp

text \<open>
  C3: when the URL after substitution starts with neither \<open>http://\<close> nor \<open>https://\<close>,
  the fetch fails with the invalid-scheme error, whatever the network would answer, and no
  URL is requested.
\<close>

theorem invalid_scheme_no_request:
  assumes "\<not> prefix ''http://'' (target_url resource_config parameters)"
    and "\<not> prefix ''https://'' (target_url resource_config parameters)"
  shows "fetch_http_content net resource_config parameters =
           ([], Inl (ValueError (''Invalid URL scheme for public resource: '' @
                                 target_url resource_config parameters)))"
  using assms by (simp add: fetch_http_content_def http_scheme_def)

lemma items_ftp:
  "target_url items (Some [(''scheme'', PyStr ''ftp''), (''id'', PyInt 7)]) = ''ftp://example.org/items/7''"
  by code_simp

theorem invalid_scheme_no_request_witness:
  "\<not> prefix ''http://'' (target_url items (Some [(''scheme'', PyStr ''ftp''), (''id'', PyInt 7)])) \<and>
   \<not> prefix ''https://'' (target_url items (Some [(''scheme'', PyStr ''ftp''), (''id'', PyInt 7)])) \<and>
   fetch_http_content ok_net items (Some [(''scheme'', PyStr ''ftp''), (''id'', PyInt 7)]) =
     ([], Inl (ValueError ''Invalid URL scheme for public resource: ftp://example.org/items/7''))"
proof -
  let ?p = "Some [(''scheme'', PyStr ''ftp''), (''id'', PyInt 7)]"
  have a: "\<not> prefix ''http://'' (target_url items ?p)"
    by (simp add: items_ftp)
  have b: "\<not> prefix ''https://'' (target_url items ?p)"
    by (simp add: items_ftp)
  show ?thesis
    using a b invalid_scheme_no_request [OF a b, of ok_net] by (simp add: items_ftp)
qed

section \<open>The function dispatch\<close>

text \<open>
  The branches of the dispatch: without a handler name, the no-function error; with a
  handler name under which the instance has no attribute, the function-not-found error;
  with a handler name under which the instance has a method whose call returns a
  coroutine, what awaiting that coroutine gives.
\<close>

lemma dispatch_branches:
  "(function_name resource_config = None \<or> function_name resource_config = Some [] \<longrightarrow>
      get_mcp_content attrs resource_config parameters =
        Inl (ValueError (''No function specified for mcp_server resource '' @ quoted (name resource_config)))) \<and>
   (function_name resource_config = Some fn \<and> fn \<noteq> [] \<and> attrs fn = None \<longrightarrow>
      get_mcp_content attrs resource_config parameters =
        Inl (ValueError (''Function '' @ quoted fn @ '' not found in resource class''))) \<and>
   (function_name resource_config = Some fn \<and> fn \<noteq> [] \<and> attrs fn = Some (Callable f) \<and>
    f (or_empty parameters) = Inr (Coroutine r) \<longrightarrow>
      get_mcp_content attrs resource_config parameters = r)"
  by (auto simp add: get_mcp_content_def call_attr_def await_object_def)

lemma sample_handler_dispatch:
  "get_mcp_content (instance_attrs other) sample (Some [(''client'', PyStr ''acme'')]) =
     Inr ''This is the roadrunner client'' \<and>
   get_mcp_content (instance_attrs other) sample None =
     Inr ''Unknown client: . Available clients: acme, bigrock''"
proof -
  have a: "sample_parameterized_resource [(''client'', PyStr ''acme'')] = Inr ''This is the roadrunner client''"
    by code_simp
  have b: "sample_parameterized_resource [] = Inr ''Unknown client: . Available clients: acme, bigrock''"
    by code_simp
  show ?thesis
    by (simp add: get_mcp_content_def sample_def instance_attrs_def constructor_attrs_def
        call_attr_def await_object_def or_empty_def a b)
qed

text \<open>
  C6 asks for the function-not-found error when the handler name resolves to no method of
  the instance. At the handler name \<open>class_name\<close> the code does otherwise: the name is a
  string the constructor assigned, \<open>hasattr\<close> holds, the branch of the function-not-found
  error is not taken, and the call of the string raises a \<open>TypeError\<close>, whatever the
  parameters and the other attributes of the instance are.
\<close>

theorem class_name_is_called:
  "get_mcp_content (instance_attrs other) (sample\<lparr>function_name := Some ''class_name''\<rparr>) parameters =
     Inl (TypeError (quoted ''str'' @ '' object is not callable'')) \<and>
   get_mcp_content (instance_attrs other) (sample\<lparr>function_name := Some ''class_name''\<rparr>) parameters \<noteq>
     Inl (ValueError (''Function '' @ quoted ''class_name'' @ '' not found in resource class''))"
  by (simp add: get_mcp_content_def instance_attrs_def constructor_attrs_def call_attr_def)

section \<open>Selecting a descriptor\<close>

lemma find_none:
  "resource_name \<notin> set (map name rs) \<Longrightarrow> find (\<lambda>res. name res = resource_name) rs = None"
  by (induction rs) auto

lemma find_first:
  "\<forall>r \<in> set pre. name r \<noteq> name rc \<Longrightarrow> find (\<lambda>res. name res = name rc) (pre @ rc # post) = Some rc"
  by (induction pre) auto

text \<open>
  C7: on a provider of either class that holds two or more descriptors, \<open>get_content\<close>
  fails with the error asking for a resource selection, for every parameters argument (and
  the HTTP provider requests nothing); on a provider that holds exactly one descriptor it
  is the fetch routine of the class on that descriptor.
\<close>

theorem get_content_selection:
  "(2 \<le> length (resource_instances self) \<longrightarrow>
      http_get_content net self parameters =
        ([], Inl (ValueError ''Multi-resource classes need specific resource selection'')) \<and>
      private_get_content attrs self parameters =
        Inl (ValueError ''Multi-resource classes need specific resource selection'')) \<and>
   (resource_instances self = [resource_config] \<longrightarrow>
      http_get_content net self parameters = fetch_http_content net resource_config parameters \<and>
      private_get_content attrs self parameters = get_mcp_content attrs resource_config parameters)"
  by (simp add: http_get_content_def private_get_content_def multi_resource_error_def)

theorem get_content_selection_witness:
  "\<forall>other.
   2 \<le> length (resource_instances \<lparr>resource_instances = [countries, items]\<rparr>) \<and>
   http_get_content ok_net \<lparr>resource_instances = [countries, items]\<rparr> None =
     ([], Inl (ValueError ''Multi-resource classes need specific resource selection'')) \<and>
   private_get_content (instance_attrs other) \<lparr>resource_instances = [countries, items]\<rparr> None =
     Inl (ValueError ''Multi-resource classes need specific resource selection'') \<and>
   resource_instances \<lparr>resource_instances = [sample]\<rparr> = [sample] \<and>
   http_get_content ok_net \<lparr>resource_instances = [sample]\<rparr> (Some [(''client'', PyStr ''acme'')]) =
     fetch_http_content ok_net sample (Some [(''client'', PyStr ''acme'')]) \<and>
   private_get_content (instance_attrs other) \<lparr>resource_instances = [sample]\<rparr>
       (Some [(''client'', PyStr ''acme'')]) =
     get_mcp_content (instance_attrs other) sample (Some [(''client'', PyStr ''acme'')])"
proof
  fix other
  show "2 \<le> length (resource_instances \<lparr>resource_instances = [countries, items]\<rparr>) \<and>
   http_get_content ok_net \<lparr>resource_instances = [countries, items]\<rparr> None =
     ([], Inl (ValueError ''Multi-resource classes need specific resource selection'')) \<and>
   private_get_content (instance_attrs other) \<lparr>resource_instances = [countries, items]\<rparr> None =
     Inl (ValueError ''Multi-resource classes need specific resource selection'') \<and>
   resource_instances \<lparr>resource_instances = [sample]\<rparr> = [sample] \<and>
   http_get_content ok_net \<lparr>resource_instances = [sample]\<rparr> (Some [(''client'', PyStr ''acme'')]) =
     fetch_http_content ok_net sample (Some [(''client'', PyStr ''acme'')]) \<and>
   private_get_content (instance_attrs other) \<lparr>resource_instances = [sample]\<rparr>
       (Some [(''client'', PyStr ''acme'')]) =
     get_mcp_content (instance_attrs other) sample (Some [(''client'', PyStr ''acme'')])"
    using get_content_selection [where self = "\<lparr>resource_instances = [countries, items]\<rparr>"
        and net = ok_net and parameters = None and attrs = "instance_attrs other"]
      get_content_selection [where self = "\<lparr>resource_instances = [sample]\<rparr>" and resource_config = sample
        and net = ok_net and parameters = "Some [(''client'', PyStr ''acme'')]"
        and attrs = "instance_attrs other"]
    by simp
qed

text \<open>
  C8: for a name that is the name of none of the provider's descriptors,
  \<open>get_resource_content\<close> of either class fails with the not-found error for that name,
  for every parameters argument.
\<close>

theorem unknown_name_not_found:
  assumes "resource_name \<notin> set (map name (resource_instances self))"
  shows "http_get_resource_content net self resource_name parameters =
           ([], Inl (ValueError (''Resource '' @ quoted resource_name @ '' not found''))) \<and>
         private_get_resource_content attrs self resource_name parameters =
           Inl (ValueError (''Resource '' @ quoted resource_name @ '' not found''))"
  using find_none [OF assms]
  by (simp add: http_get_resource_content_def private_get_resource_content_def not_found_error_def)

theorem unknown_name_not_found_witness:
  "\<forall>other.
   ''nosuch'' \<notin> set (map name (resource_instances \<lparr>resource_instances = [countries, items, sample]\<rparr>)) \<and>
   http_get_resource_content ok_net \<lparr>resource_instances = [countries, items, sample]\<rparr> ''nosuch'' (Some []) =
     ([], Inl (ValueError (''Resource '' @ quoted ''nosuch'' @ '' not found''))) \<and>
   private_get_resource_content (instance_attrs other)
       \<lparr>resource_instances = [countries, items, sample]\<rparr> ''nosuch'' (Some []) =
     Inl (ValueError (''Resource '' @ quoted ''nosuch'' @ '' not found''))"
proof
  fix other
  have a: "''nosuch'' \<notin> set (map name (resource_instances \<lparr>resource_instances = [countries, items, sample]\<rparr>))"
    by (simp add: countries_def items_def sample_def)
  show "''nosuch'' \<notin> set (map name (resource_instances \<lparr>resource_instances = [countries, items, sample]\<rparr>)) \<and>
   http_get_resource_content ok_net \<lparr>resource_instances = [countries, items, sample]\<rparr> ''nosuch'' (Some []) =
     ([], Inl (ValueError (''Resource '' @ quoted ''nosuch'' @ '' not found''))) \<and>
   private_get_resource_content (instance_attrs other)
       \<lparr>resource_instances = [countries, items, sample]\<rparr> ''nosuch'' (Some []) =
     Inl (ValueError (''Resource '' @ quoted ''nosuch'' @ '' not found''))"
    using a unknown_name_not_found [OF a, of ok_net "Some []" "instance_attrs other"] by blast
qed

text \<open>
  C9: \<open>get_resource_content\<close> of either class goes to the first descriptor of the
  sequence that bears the name; the descriptors after it, those of the same name among
  them, have no part in the result.
\<close>

theorem first_match_wins:
  assumes "resource_instances self = pre @ resource_config # post"
    and "\<forall>r \<in> set pre. name r \<noteq> name resource_config"
  shows "http_get_resource_content net self (name resource_config) parameters =
           fetch_http_content net resource_config parameters \<and>
         private_get_resource_content attrs self (name resource_config) parameters =
           get_mcp_content attrs resource_config parameters"
  using find_first [OF assms(2), of post]
  by (simp add: http_get_resource_content_def private_get_resource_content_def assms(1))

theorem first_match_wins_witness:
  "\<forall>other.
   resource_instances \<lparr>resource_instances = [countries, sample, items, sample_shadowed]\<rparr> =
     [countries] @ sample # [items, sample_shadowed] \<and>
   name countries \<noteq> name sample \<and>
   name sample_shadowed = name sample \<and> sample_shadowed \<noteq> sample \<and>
   http_get_resource_content ok_net \<lparr>resource_instances = [countries, sample, items, sample_shadowed]\<rparr>
       (name sample) None =
     fetch_http_content ok_net sample None \<and>
   private_get_resource_content (instance_attrs other)
       \<lparr>resource_instances = [countries, sample, items, sample_shadowed]\<rparr> (name sample) None =
     get_mcp_content (instance_attrs other) sample None \<and>
   get_mcp_content (instance_attrs other) sample None =
     Inr ''Unknown client: . Available clients: acme, bigrock''"
proof
  fix other
  let ?self = "\<lparr>resource_instances = [countries, sample, items, sample_shadowed]\<rparr>"
  have a: "resource_instances ?self = [countries] @ sample # [items, sample_shadowed]"
    by simp
  have b: "\<forall>r \<in> set [countries]. name r \<noteq> name sample"
    by (simp add: countries_def sample_def)
  have c: "name sample_shadowed = name sample \<and> sample_shadowed \<noteq> sample"
    by (simp add: sample_shadowed_def sample_def)
  have d: "name countries \<noteq> name sample"
    using b by simp
  have e: "get_mcp_content (instance_attrs other) sample None =
      Inr ''Unknown client: . Available clients: acme, bigrock''"
    using sample_handler_dispatch [of other] by blast
  show "resource_instances ?self = [countries] @ sample # [items, sample_shadowed] \<and>
   name countries \<noteq> name sample \<and>
   name sample_shadowed = name sample \<and> sample_shadowed \<noteq> sample \<and>
   http_get_resource_content ok_net ?self (name sample) None =
     fetch_http_content ok_net sample None \<and>
   private_get_resource_content (instance_attrs other) ?self (name sample) None =
     get_mcp_content (instance_attrs other) sample None \<and>
   get_mcp_content (instance_attrs other) sample None =
     Inr ''Unknown client: . Available clients: acme, bigrock''"
    using a c d e first_match_wins [OF a b, of ok_net None "instance_attrs other"] by blast
qed

text \<open>
  C10: on a provider of either class that holds no descriptor, \<open>get_content\<close> fails
  with the same error as on a provider that holds several, for every parameters argument.
\<close>

theorem get_content_no_descriptor:
  "http_get_content net \<lparr>resource_instances = []\<rparr> parameters =
     ([], Inl (ValueError ''Multi-resource classes need specific resource selection'')) \<and>
   private_get_content attrs \<lparr>resource_instances = []\<rparr> parameters =
     Inl (ValueError ''Multi-resource classes need specific resource selection'')"
  by (simp add: http_get_content_def private_get_content_def multi_resource_error_def)

end
